theory Spec2Isabelle
  imports Main "HOL-Library.Sublist" "HOL-Library.AList"
begin

section \<open>Python strings\<close>

text \<open>
  Strings are byte lists (UTF-8). \<open>a in b\<close> on two strings is the
  contiguous-substring test. \<open>str.lower\<close> and \<open>str.capitalize\<close> are functions of the
  Python library, aware of Unicode; they are not modelled here but taken from the
  environment (\<open>str_lower\<close>, \<open>str_capitalize\<close> below), so that what is proved holds
  whatever they do to a string.
\<close>

fun starts_with :: "string \<Rightarrow> string \<Rightarrow> bool" where
  "starts_with [] s = True"
| "starts_with (c # cs) [] = False"
| "starts_with (c # cs) (d # ds) = (c = d \<and> starts_with cs ds)"

fun str_in :: "string \<Rightarrow> string \<Rightarrow> bool" where
  "str_in a [] = (a = [])"
| "str_in a (d # ds) = (starts_with a (d # ds) \<or> str_in a ds)"

definition lstrip_zero :: "string \<Rightarrow> string" where
  "lstrip_zero s = dropWhile (\<lambda>c. c = CHR ''0'') s"

definition digit :: "nat \<Rightarrow> char" where
  "digit n = ''0123456789'' ! (n mod 10)"

function str_nat :: "nat \<Rightarrow> string" where
  "str_nat n = (if n < 10 then [digit n] else str_nat (n div 10) @ [digit n])"
  by pat_completeness auto
termination
  by (relation "measure id") auto

declare str_nat.simps [simp del]

definition str_int :: "int \<Rightarrow> string" where
  "str_int i = (if i < 0 then CHR ''-'' # str_nat (nat (- i)) else str_nat (nat i))"

section \<open>Upstream payloads\<close>

text \<open>
  The JSON objects of the statistics API, typed by the keys the code reads. A key read
  with \<open>.get\<close> is an optional field; a chain \<open>.get(a, {}).get(b)\<close> is one optional field
  named after its path, since a missing step and a missing leaf give the same default.
  The identifying keys of a person (\<open>id\<close>, \<open>fullName\<close>) are mandatory, as in the roster
  entries built from them.
\<close>

record person =
  person_id :: int
  fullName :: string
  primaryNumber :: "string option"
  currentTeam_name :: "string option"
  currentTeam_id :: "int option"
  primaryPosition_abbreviation :: "string option"

record schedule_game =
  gamePk :: "int option"
  gameDate :: "string option"
  status_detailedState :: "string option"
  teams_away_team_name :: "string option"
  teams_home_team_name :: "string option"
  linescore_away_runs :: "int option"
  linescore_home_runs :: "int option"
  linescore_currentInning :: "int option"
  linescore_inningState :: "string option"

record schedule_date =
  games :: "schedule_game list option"

record runner =
  movement_start :: "string option"

record play =
  matchup_batter_id :: "int option"
  result_event :: "string option"
  result_description :: "string option"
  about_inning :: "int option"
  about_halfInning :: "string option"
  runners :: "runner list"
  atBatIndex :: "int option"

record box_player =
  box_person_id :: "int option"
  batting_hits :: "int option"
  batting_atBats :: "int option"
  batting_rbi :: "int option"
  batting_runs :: "int option"

record split =
  stat_avg :: "string option"
  stat_obp :: "string option"
  stat_slg :: "string option"
  stat_hits :: "int option"
  stat_atBats :: "int option"
  stat_rbi :: "int option"
  stat_runs :: "int option"
  stat_homeRuns :: "int option"

record stat_group =
  splits :: "split list"

record response =
  people :: "person list option"
  dates :: "schedule_date list option"
  allPlays :: "play list option"
  boxscore_away_players :: "(string \<times> box_player) list option"
  boxscore_home_players :: "(string \<times> box_player) list option"
  stats :: "stat_group list option"

definition empty_response :: response where
  "empty_response =
     \<lparr>people = None, dates = None, allPlays = None, boxscore_away_players = None,
      boxscore_home_players = None, stats = None\<rparr>"

datatype endpoint =
    SportsPlayers int
  | People int
  | Schedule int string
  | GameFeed int
  | PeopleStats int int

datatype color = Green | Red | Blue | Gold

text \<open>
  A message handed to the channel: title, colour, the fields in order (name, value,
  inline) and the footer. The timestamp, read from the wall clock, is left out.
\<close>

record embed =
  e_title :: string
  e_color :: color
  e_fields :: "(string \<times> string \<times> bool) list"
  e_footer :: string

text \<open>
  What one poll cycle or command sees of the outside: the answer to each request
  (\<open>None\<close> when the request raises: transport error, HTTP status, undecodable body), the
  calendar date and year, the rendering of an ISO time by the date library (\<open>None\<close> when
  it cannot be parsed), whether the channel exists, whether a message handed to the
  channel is delivered (\<open>False\<close> when \<open>channel.send\<close> raises), and the string methods
  \<open>str.lower\<close> and \<open>str.capitalize\<close> of the Python library.
\<close>

record env =
  http :: "endpoint \<Rightarrow> response option"
  today :: string
  year :: int
  strftime_et :: "string \<Rightarrow> string option"
  channel_found :: bool
  deliver :: "embed \<Rightarrow> bool"
  str_lower :: "string \<Rightarrow> string"
  str_capitalize :: "string \<Rightarrow> string"

section \<open>Domain records\<close>

record player =
  pl_id :: int
  pl_name :: string
  pl_primaryNumber :: "string option"
  pl_team :: string
  pl_team_id :: "int option"
  pl_position :: string

record game_stats =
  gs_hits :: int
  gs_atbats :: int
  gs_rbi :: int
  gs_runs :: int

text \<open>
  The game dictionary. Its key \<open>player_stats\<close> is read by \<open>post_game_summary\<close>;
  \<open>_format_game_info\<close>, the only place a game dictionary is built, does not set it.
\<close>

record game =
  game_pk :: "int option"
  away_team :: string
  home_team :: string
  away_score :: int
  home_score :: int
  inning :: int
  inning_state :: string
  game_time :: string
  gameComplete :: bool
  player_stats :: "game_stats option"

record season_stats =
  avg :: string
  obp :: string
  slg :: string
  ss_hits :: int
  ss_atbats :: int
  ss_rbi :: int
  ss_runs :: int
  ss_homeRuns :: int

record atbat =
  ab_id :: "int option"
  ab_result :: string
  ab_description :: string
  was_hit :: bool
  risp :: bool
  ab_inning :: string
  ab_stats :: season_stats

section \<open>The gateway (mlb\_api.py)\<close>

text \<open>\<open>_request\<close>: any exception of the request is caught and answered by \<open>{}\<close>.\<close>

definition request :: "env \<Rightarrow> endpoint \<Rightarrow> response" where
  "request e ep = (case http e ep of None \<Rightarrow> empty_response | Some r \<Rightarrow> r)"

definition get_or :: "'a \<Rightarrow> 'a option \<Rightarrow> 'a" where
  "get_or d v = (case v of None \<Rightarrow> d | Some x \<Rightarrow> x)"

definition format_player_info :: "person \<Rightarrow> player" where
  "format_player_info pd =
     \<lparr>pl_id = person_id pd,
      pl_name = fullName pd,
      pl_primaryNumber = primaryNumber pd,
      pl_team = get_or ''Unknown'' (currentTeam_name pd),
      pl_team_id = currentTeam_id pd,
      pl_position = get_or ''N/A'' (primaryPosition_abbreviation pd)\<rparr>"

text \<open>The loop of \<open>search_player\<close>: the first person whose name matches is returned.\<close>

fun first_match :: "env \<Rightarrow> string \<Rightarrow> person list \<Rightarrow> player option" where
  "first_match e name_lower [] = None"
| "first_match e name_lower (p # ps) =
     (if str_in name_lower (str_lower e (fullName p)) then Some (format_player_info p)
      else first_match e name_lower ps)"

definition search_player :: "env \<Rightarrow> string \<Rightarrow> player option" where
  "search_player e name =
     (let data = request e (SportsPlayers (year e));
          players = get_or [] (people data)
      in first_match e (str_lower e name) players)"

definition format_game_info :: "env \<Rightarrow> schedule_game \<Rightarrow> game" where
  "format_game_info e gd =
     (let gt = get_or [] (gameDate gd);
          gt' = (if gt \<noteq> [] then get_or ''TBD'' (strftime_et e gt) else gt)
      in \<lparr>game_pk = gamePk gd,
          away_team = get_or [] (teams_away_team_name gd),
          home_team = get_or [] (teams_home_team_name gd),
          away_score = get_or 0 (linescore_away_runs gd),
          home_score = get_or 0 (linescore_home_runs gd),
          inning = get_or 1 (linescore_currentInning gd),
          inning_state = get_or [] (linescore_inningState gd),
          game_time = gt',
          gameComplete = (status_detailedState gd = Some ''Final''),
          player_stats = None\<rparr>)"

text \<open>
  \<open>get_player_game_today\<close>. \<open>not x\<close> holds of a missing key, an empty list and the
  number 0.
\<close>

definition get_player_game_today :: "env \<Rightarrow> int \<Rightarrow> game option" where
  "get_player_game_today e player_id =
     (let player_data = request e (People player_id)
      in case people player_data of
           None \<Rightarrow> None
         | Some [] \<Rightarrow> None
         | Some (p0 # _) \<Rightarrow>
             (case currentTeam_id p0 of
                None \<Rightarrow> None
              | Some team_id \<Rightarrow>
                  if team_id = 0 then None
                  else
                    (let schedule_data = request e (Schedule team_id (today e))
                     in case get_or [] (dates schedule_data) of
                          [] \<Rightarrow> None
                        | d0 # _ \<Rightarrow>
                            (case games d0 of
                               None \<Rightarrow> None
                             | Some [] \<Rightarrow> None
                             | Some (g0 # _) \<Rightarrow> Some (format_game_info e g0)))))"

text \<open>
  \<open>_get_player_season_stats\<close>. \<open>data.get("stats", [{}])[0]\<close> raises IndexError on an
  empty list, which the function catches; it then returns the placeholder record, as it
  does when there is no split.
\<close>

definition zero_season_stats :: season_stats where
  "zero_season_stats =
     \<lparr>avg = ''.000'', obp = ''.000'', slg = ''.000'', ss_hits = 0, ss_atbats = 0,
      ss_rbi = 0, ss_runs = 0, ss_homeRuns = 0\<rparr>"

definition format_average :: "string option \<Rightarrow> string" where
  "format_average v =
     (let s = lstrip_zero (get_or ''.000'' v) in if s = [] then ''0'' else s)"

definition get_player_season_stats :: "env \<Rightarrow> int \<Rightarrow> season_stats" where
  "get_player_season_stats e player_id =
     (let data = request e (PeopleStats player_id (year e))
      in case get_or [\<lparr>splits = []\<rparr>] (stats data) of
           [] \<Rightarrow> zero_season_stats
         | g # _ \<Rightarrow>
             (case splits g of
                [] \<Rightarrow> zero_season_stats
              | s # _ \<Rightarrow>
                  \<lparr>avg = format_average (stat_avg s),
                   obp = format_average (stat_obp s),
                   slg = format_average (stat_slg s),
                   ss_hits = get_or 0 (stat_hits s),
                   ss_atbats = get_or 0 (stat_atBats s),
                   ss_rbi = get_or 0 (stat_rbi s),
                   ss_runs = get_or 0 (stat_runs s),
                   ss_homeRuns = get_or 0 (stat_homeRuns s)\<rparr>))"

definition hit_events :: "string list" where
  "hit_events = [''Single'', ''Double'', ''Triple'', ''Home Run'']"

definition format_atbat :: "env \<Rightarrow> play \<Rightarrow> game \<Rightarrow> season_stats \<Rightarrow> atbat" where
  "format_atbat e play_data game_data ps =
     (let risp_flag = list_ex (\<lambda>r. movement_start r \<in> set [Some ''2B'', Some ''3B''])
                        (runners play_data);
          event = get_or [] (result_event play_data);
          hit = (event \<in> set hit_events);
          inning_num = get_or 1 (about_inning play_data);
          inning_half = get_or ''top'' (about_halfInning play_data);
          inning_str = str_capitalize e inning_half @ '' '' @ str_int inning_num
      in \<lparr>ab_id = atBatIndex play_data,
          ab_result = event,
          ab_description = get_or [] (result_description play_data),
          was_hit = hit,
          risp = risp_flag,
          ab_inning = inning_str,
          ab_stats = ps\<rparr>)"

text \<open>
  \<open>get_latest_atbat\<close>. A play counts when the player is its batter and its result has a
  non-empty event and a non-empty description; the last such play of the feed is taken.
  A feed without plays is answered by \<open>None\<close> at the test \<open>not feed_data\<close> or at the test
  \<open>not player_atbats\<close>, with the same result.
\<close>

definition truthy :: "string option \<Rightarrow> bool" where
  "truthy v = (case v of None \<Rightarrow> False | Some s \<Rightarrow> s \<noteq> [])"

definition completed_atbat_of :: "int \<Rightarrow> play \<Rightarrow> bool" where
  "completed_atbat_of player_id p =
     (matchup_batter_id p = Some player_id \<and> truthy (result_event p)
      \<and> truthy (result_description p))"

definition get_latest_atbat :: "env \<Rightarrow> int \<Rightarrow> game \<Rightarrow> atbat option" where
  "get_latest_atbat e player_id game_data =
     (case game_pk game_data of
        None \<Rightarrow> None
      | Some pk \<Rightarrow>
          if pk = 0 then None
          else
            (let feed_data = request e (GameFeed pk)
             in if feed_data = empty_response then None
                else
                  (let all_plays = get_or [] (allPlays feed_data);
                       player_atbats = filter (completed_atbat_of player_id) all_plays
                   in if player_atbats = [] then None
                      else Some (format_atbat e (last player_atbats) game_data
                                   (get_player_season_stats e player_id)))))"

text \<open>
  \<open>get_player_game_stats\<close>: the away players are scanned first, then the home players,
  each in the order of the dictionary; the first entry of the player is returned.
\<close>

definition zero_game_stats :: game_stats where
  "zero_game_stats = \<lparr>gs_hits = 0, gs_atbats = 0, gs_rbi = 0, gs_runs = 0\<rparr>"

fun scan_players :: "int \<Rightarrow> (string \<times> box_player) list \<Rightarrow> game_stats option" where
  "scan_players player_id [] = None"
| "scan_players player_id ((k, pd) # rest) =
     (if box_person_id pd = Some player_id
      then Some \<lparr>gs_hits = get_or 0 (batting_hits pd),
                 gs_atbats = get_or 0 (batting_atBats pd),
                 gs_rbi = get_or 0 (batting_rbi pd),
                 gs_runs = get_or 0 (batting_runs pd)\<rparr>
      else scan_players player_id rest)"

definition get_player_game_stats :: "env \<Rightarrow> int \<Rightarrow> int \<Rightarrow> game_stats" where
  "get_player_game_stats e player_id pk =
     (let feed_data = request e (GameFeed pk)
      in case scan_players player_id (get_or [] (boxscore_away_players feed_data)) of
           Some s \<Rightarrow> s
         | None \<Rightarrow>
             (case scan_players player_id (get_or [] (boxscore_home_players feed_data)) of
                Some s \<Rightarrow> s
              | None \<Rightarrow> zero_game_stats))"

section \<open>The bot (bot.py)\<close>

text \<open>
  The persisted files (\<open>None\<close>: the file does not exist), every message handed to the
  channel with its outcome (\<open>True\<close>: delivered, \<open>False\<close>: \<open>channel.send\<close> raised), and the
  lines the poll loop prints. A dictionary is an association list in insertion order;
  the marker dictionary maps \<open>str(player id)\<close> to the last at-bat id.
\<close>

datatype exc = SendFailed

datatype log_line = ChannelNotFound | ErrorChecking string exc

type_synonym markers = "(string \<times> int option) list"

record bot_state =
  roster_file :: "player list option"
  last_atbats_file :: "markers option"
  channel_log :: "(embed \<times> bool) list"
  console :: "log_line list"

definition ADMIN_ROLE_NAME :: string where
  "ADMIN_ROLE_NAME = ''MLB Bot Admin''"

definition quote :: string where
  "quote = [CHR 0x27]"

definition emoji_baseball :: string where
  "emoji_baseball = [CHR 0xE2, CHR 0x9A, CHR 0xBE]"

definition emoji_chart :: string where
  "emoji_chart = [CHR 0xF0, CHR 0x9F, CHR 0x93, CHR 0x8A]"

definition emoji_diamond :: string where
  "emoji_diamond = [CHR 0xF0, CHR 0x9F, CHR 0x94, CHR 0xB6]"

definition emoji_check :: string where
  "emoji_check = [CHR 0xE2, CHR 0x9C, CHR 0x85]"

text \<open>\<open>dict.get(key)\<close>: \<open>None\<close> for a missing key and for a stored \<open>None\<close>.\<close>

definition dict_get :: "markers \<Rightarrow> string \<Rightarrow> int option" where
  "dict_get d k = (case map_of d k of None \<Rightarrow> None | Some v \<Rightarrow> v)"

text \<open>\<open>channel.send\<close>: the message is delivered, or the call raises.\<close>

definition send :: "env \<Rightarrow> embed \<Rightarrow> bot_state \<Rightarrow> exc option \<times> bot_state" where
  "send e em st =
     (if deliver e em then (None, st\<lparr>channel_log := channel_log st @ [(em, True)]\<rparr>)
      else (Some SendFailed, st\<lparr>channel_log := channel_log st @ [(em, False)]\<rparr>))"

definition slash_line :: "season_stats \<Rightarrow> string" where
  "slash_line st = ''.'' @ avg st @ '' / .'' @ obp st @ '' / .'' @ slg st"

definition atbat_embed :: "player \<Rightarrow> atbat \<Rightarrow> game \<Rightarrow> embed" where
  "atbat_embed pl ab game_data =
     (let context0 = ''**'' @ away_team game_data @ '' @ '' @ home_team game_data @ ''** | ''
                     @ ''Score: '' @ str_int (away_score game_data) @ ''-''
                     @ str_int (home_score game_data) @ '' | ''
                     @ ab_inning ab;
          context = (if risp ab then context0 @ '' | '' @ emoji_diamond @ '' **RISP**''
                     else context0)
      in \<lparr>e_title = emoji_baseball @ '' '' @ pl_name pl @ '' - At Bat'',
          e_color = (if was_hit ab then Green else Red),
          e_fields = [(''Result'', ''**'' @ ab_result ab @ ''**'', False),
                      (''Season Slash Line'', slash_line (ab_stats ab), False),
                      (''Game Context'', context, False)],
          e_footer = pl_team pl\<rparr>)"

definition post_atbat_update ::
  "env \<Rightarrow> player \<Rightarrow> atbat \<Rightarrow> game \<Rightarrow> bot_state \<Rightarrow> exc option \<times> bot_state" where
  "post_atbat_update e pl ab game_data st = send e (atbat_embed pl ab game_data) st"

definition summary_embed :: "player \<Rightarrow> game \<Rightarrow> embed" where
  "summary_embed pl game_data =
     (let st = player_stats game_data;
          hits = (case st of None \<Rightarrow> 0 | Some s \<Rightarrow> gs_hits s);
          atbats = (case st of None \<Rightarrow> 0 | Some s \<Rightarrow> gs_atbats s);
          rbi = (case st of None \<Rightarrow> 0 | Some s \<Rightarrow> gs_rbi s);
          runs = (case st of None \<Rightarrow> 0 | Some s \<Rightarrow> gs_runs s)
      in \<lparr>e_title = emoji_chart @ '' Game Complete - '' @ pl_name pl,
          e_color = Blue,
          e_fields = [(''Final Line'', str_int hits @ ''-for-'' @ str_int atbats, True)]
                     @ (if rbi > 0 then [(''RBI'', str_int rbi, True)] else [])
                     @ (if runs > 0 then [(''Runs'', str_int runs, True)] else [])
                     @ [(''Game Result'',
                         ''**'' @ away_team game_data @ '' '' @ str_int (away_score game_data)
                         @ '', '' @ home_team game_data @ '' ''
                         @ str_int (home_score game_data) @ ''**'', False)],
          e_footer = pl_team pl\<rparr>)"

definition post_game_summary ::
  "env \<Rightarrow> player \<Rightarrow> game \<Rightarrow> bot_state \<Rightarrow> exc option \<times> bot_state" where
  "post_game_summary e pl game_data st = send e (summary_embed pl game_data) st"

text \<open>
  The body of the \<open>try\<close> in \<open>check_games\<close>, for one roster entry, in two parts: the
  comparison of the latest at-bat with the marker and what follows it (\<open>handle_atbat\<close>),
  and the two lookups before it (\<open>check_player_body\<close>). Each returns the raised
  exception if any, the marker dictionary held in memory and the state, as they are
  when the body ends or raises.
\<close>

definition handle_atbat ::
  "env \<Rightarrow> player \<Rightarrow> game \<Rightarrow> atbat \<Rightarrow> markers \<times> bot_state
   \<Rightarrow> exc option \<times> markers \<times> bot_state" where
  "handle_atbat e pl game_data latest_atbat s =
     (let last_atbats = fst s; st = snd s;
          player_key = str_int (pl_id pl);
          last_atbat_id = dict_get last_atbats player_key
      in if ab_id latest_atbat \<noteq> last_atbat_id then
           (case post_atbat_update e pl latest_atbat game_data st of
              (Some x, st1) \<Rightarrow> (Some x, last_atbats, st1)
            | (None, st1) \<Rightarrow>
                (let last_atbats' =
                       AList.update player_key (ab_id latest_atbat) last_atbats;
                     st2 = st1\<lparr>last_atbats_file := Some last_atbats'\<rparr>
                 in if gameComplete game_data then
                      (case post_game_summary e pl game_data st2 of
                         (x, st3) \<Rightarrow> (x, last_atbats', st3))
                    else (None, last_atbats', st2)))
         else (None, last_atbats, st))"

definition check_player_body ::
  "env \<Rightarrow> player \<Rightarrow> markers \<times> bot_state \<Rightarrow> exc option \<times> markers \<times> bot_state" where
  "check_player_body e pl s =
     (case get_player_game_today e (pl_id pl) of
        None \<Rightarrow> (None, fst s, snd s)
      | Some game_data \<Rightarrow>
          (case get_latest_atbat e (pl_id pl) game_data of
             None \<Rightarrow> (None, fst s, snd s)
           | Some latest_atbat \<Rightarrow> handle_atbat e pl game_data latest_atbat s))"

text \<open>The \<open>try\<close> with its handler, which prints and goes on to the next entry.\<close>

definition check_player :: "env \<Rightarrow> markers \<times> bot_state \<Rightarrow> player \<Rightarrow> markers \<times> bot_state" where
  "check_player e s pl =
     (case check_player_body e pl s of
        (None, last_atbats, st) \<Rightarrow> (last_atbats, st)
      | (Some x, last_atbats, st) \<Rightarrow>
          (last_atbats, st\<lparr>console := console st @ [ErrorChecking (pl_name pl) x]\<rparr>))"

definition check_roster :: "env \<Rightarrow> markers \<times> bot_state \<Rightarrow> player list \<Rightarrow> markers \<times> bot_state" where
  "check_roster e s roster = foldl (check_player e) s roster"

definition check_games :: "env \<Rightarrow> bot_state \<Rightarrow> bot_state" where
  "check_games e st =
     (let roster = get_or [] (roster_file st)
      in if roster = [] then st
         else
           (let last_atbats = get_or [] (last_atbats_file st)
            in if \<not> channel_found e then st\<lparr>console := console st @ [ChannelNotFound]\<rparr>
               else snd (check_roster e (last_atbats, st) roster)))"

text \<open>
  \<open>remove_player\<close>: the reply sent to the caller and the state. \<open>has_role\<close> says whether
  the admin role exists and the caller holds it.
\<close>

definition remove_player ::
  "env \<Rightarrow> bool \<Rightarrow> string \<Rightarrow> bot_state \<Rightarrow> string \<times> bot_state" where
  "remove_player e has_role player_name st =
     (if \<not> has_role then
        (''You need the '' @ quote @ ADMIN_ROLE_NAME @ quote @ '' role to use this command.'', st)
      else
        (let roster = get_or [] (roster_file st);
             initial_count = length roster;
             roster' = filter (\<lambda>p. \<not> str_in (str_lower e player_name)
                                        (str_lower e (pl_name p))) roster
         in if length roster' = initial_count then
              (''Player '' @ quote @ player_name @ quote @ '' not found in roster.'', st)
            else
              (emoji_check @ '' Removed player matching '' @ quote @ player_name @ quote
               @ '' from tracking.'', st\<lparr>roster_file := Some roster'\<rparr>)))"

text \<open>The notifications that reached the channel, oldest first.\<close>

definition delivered :: "bot_state \<Rightarrow> embed list" where
  "delivered st = map fst (filter snd (channel_log st))"

section \<open>Example data\<close>

text \<open>
  The string methods of the examples. On a string made of ASCII characters and of the
  letters A, E, I, N, O, U with acute accent or tilde (two bytes each in UTF-8, the
  first one C3), \<open>example_lower\<close> is \<open>str.lower\<close>; on an ASCII string
  \<open>example_capitalize\<close> is \<open>str.capitalize\<close>. The examples hold no other strings.
\<close>

definition ascii_lower_char :: "char \<Rightarrow> char" where
  "ascii_lower_char c =
     (case map_of (zip ''ABCDEFGHIJKLMNOPQRSTUVWXYZ'' ''abcdefghijklmnopqrstuvwxyz'') c of
        None \<Rightarrow> c
      | Some d \<Rightarrow> d)"

definition ascii_upper_char :: "char \<Rightarrow> char" where
  "ascii_upper_char c =
     (case map_of (zip ''abcdefghijklmnopqrstuvwxyz'' ''ABCDEFGHIJKLMNOPQRSTUVWXYZ'') c of
        None \<Rightarrow> c
      | Some d \<Rightarrow> d)"

definition accent_lower_byte :: "char \<Rightarrow> char" where
  "accent_lower_byte d =
     (case map_of (zip [CHR 0x81, CHR 0x89, CHR 0x8D, CHR 0x91, CHR 0x93, CHR 0x9A]
                       [CHR 0xA1, CHR 0xA9, CHR 0xAD, CHR 0xB1, CHR 0xB3, CHR 0xBA]) d of
        None \<Rightarrow> d
      | Some d' \<Rightarrow> d')"

fun example_lower :: "string \<Rightarrow> string" where
  "example_lower [] = []"
| "example_lower [c] = [ascii_lower_char c]"
| "example_lower (c # d # cs) =
     (if c = CHR 0xC3 then c # accent_lower_byte d # example_lower cs
      else ascii_lower_char c # example_lower (d # cs))"

fun example_capitalize :: "string \<Rightarrow> string" where
  "example_capitalize [] = []"
| "example_capitalize (c # cs) = ascii_upper_char c # map ascii_lower_char cs"

text \<open>
  One tracked player, his team's game of the day, one completed plate appearance of his
  in the feed (play index 12, a home run with a runner starting at second base), his
  season split and his box-score line.
\<close>

definition ohtani :: player where
  "ohtani =
     \<lparr>pl_id = 660271, pl_name = ''Shohei Ohtani'', pl_primaryNumber = Some ''17'',
      pl_team = ''Los Angeles Dodgers'', pl_team_id = Some 119, pl_position = ''DH''\<rparr>"

definition ohtani_person :: person where
  "ohtani_person =
     \<lparr>person_id = 660271, fullName = ''Shohei Ohtani'', primaryNumber = Some ''17'',
      currentTeam_name = Some ''Los Angeles Dodgers'', currentTeam_id = Some 119,
      primaryPosition_abbreviation = Some ''DH''\<rparr>"

definition dodgers_game :: "string \<Rightarrow> schedule_game" where
  "dodgers_game state =
     \<lparr>gamePk = Some 777001, gameDate = Some ''2025-06-01T23:10:00Z'',
      status_detailedState = Some state,
      teams_away_team_name = Some ''New York Yankees'',
      teams_home_team_name = Some ''Los Angeles Dodgers'',
      linescore_away_runs = Some 2, linescore_home_runs = Some 3,
      linescore_currentInning = Some 5, linescore_inningState = Some ''Bottom''\<rparr>"

definition homer :: play where
  "homer =
     \<lparr>matchup_batter_id = Some 660271, result_event = Some ''Home Run'',
      result_description = Some ''Shohei Ohtani homers.'', about_inning = Some 5,
      about_halfInning = Some ''bottom'',
      runners = [\<lparr>movement_start = None\<rparr>, \<lparr>movement_start = Some ''2B''\<rparr>],
      atBatIndex = Some 12\<rparr>"

definition ohtani_split :: split where
  "ohtani_split =
     \<lparr>stat_avg = Some ''.275'', stat_obp = Some ''.340'', stat_slg = Some ''.450'',
      stat_hits = Some 50, stat_atBats = Some 182, stat_rbi = Some 30,
      stat_runs = Some 40, stat_homeRuns = Some 15\<rparr>"

definition ohtani_box :: box_player where
  "ohtani_box =
     \<lparr>box_person_id = Some 660271, batting_hits = Some 2, batting_atBats = Some 4,
      batting_rbi = Some 1, batting_runs = Some 1\<rparr>"

definition feed :: response where
  "feed =
     empty_response\<lparr>allPlays := Some [homer], boxscore_away_players := Some [],
                    boxscore_home_players := Some [(''ID660271'', ohtani_box)]\<rparr>"

text \<open>
  The upstream service: \<open>state\<close> is the status of the game, \<open>stats_up\<close> says whether the
  season-stats request is answered.
\<close>

definition upstream :: "string \<Rightarrow> bool \<Rightarrow> endpoint \<Rightarrow> response option" where
  "upstream state stats_up ep =
     (case ep of
        SportsPlayers y \<Rightarrow> None
      | People i \<Rightarrow>
          if i = 660271 then Some (empty_response\<lparr>people := Some [ohtani_person]\<rparr>)
          else None
      | Schedule t d \<Rightarrow>
          if t = 119 \<and> d = ''2025-06-01''
          then Some (empty_response\<lparr>dates := Some [\<lparr>games = Some [dodgers_game state]\<rparr>]\<rparr>)
          else None
      | GameFeed k \<Rightarrow> if k = 777001 then Some feed else None
      | PeopleStats i y \<Rightarrow>
          if i = 660271 \<and> y = 2025 \<and> stats_up
          then Some (empty_response\<lparr>stats := Some [\<lparr>splits = [ohtani_split]\<rparr>]\<rparr>)
          else None)"

definition env_of :: "string \<Rightarrow> bool \<Rightarrow> bool \<Rightarrow> env" where
  "env_of state stats_up sends =
     \<lparr>http = upstream state stats_up, today = ''2025-06-01'', year = 2025,
      strftime_et = (\<lambda>s. Some ''07:10 PM ET''), channel_found = True,
      deliver = (\<lambda>m. sends), str_lower = example_lower,
      str_capitalize = example_capitalize\<rparr>"

definition st0 :: bot_state where
  "st0 = \<lparr>roster_file = Some [ohtani], last_atbats_file = None, channel_log = [],
          console = []\<rparr>"

definition ohtani_game :: "string \<Rightarrow> game" where
  "ohtani_game state =
     \<lparr>game_pk = Some 777001, away_team = ''New York Yankees'',
      home_team = ''Los Angeles Dodgers'', away_score = 2, home_score = 3, inning = 5,
      inning_state = ''Bottom'', game_time = ''07:10 PM ET'',
      gameComplete = (state = ''Final''), player_stats = None\<rparr>"

definition ohtani_atbat :: "season_stats \<Rightarrow> atbat" where
  "ohtani_atbat ss =
     \<lparr>ab_id = Some 12, ab_result = ''Home Run'',
      ab_description = ''Shohei Ohtani homers.'', was_hit = True, risp = True,
      ab_inning = ''Bottom 5'', ab_stats = ss\<rparr>"

definition ohtani_season :: season_stats where
  "ohtani_season =
     \<lparr>avg = ''.275'', obp = ''.340'', slg = ''.450'', ss_hits = 50, ss_atbats = 182,
      ss_rbi = 30, ss_runs = 40, ss_homeRuns = 15\<rparr>"

text \<open>Two players of the same name, as the upstream list of the season has them.\<close>

definition will_smith_lad :: person where
  "will_smith_lad =
     \<lparr>person_id = 669257, fullName = ''Will Smith'', primaryNumber = Some ''16'',
      currentTeam_name = Some ''Los Angeles Dodgers'', currentTeam_id = Some 119,
      primaryPosition_abbreviation = Some ''C''\<rparr>"

definition will_smith_kc :: person where
  "will_smith_kc =
     \<lparr>person_id = 519293, fullName = ''Will Smith'', primaryNumber = Some ''31'',
      currentTeam_name = Some ''Kansas City Royals'', currentTeam_id = Some 118,
      primaryPosition_abbreviation = Some ''P''\<rparr>"

definition env_search :: env where
  "env_search =
     \<lparr>http = (\<lambda>ep. case ep of
                SportsPlayers y \<Rightarrow>
                  Some (empty_response\<lparr>people := Some [ohtani_person, will_smith_lad,
                                                         will_smith_kc]\<rparr>)
              | _ \<Rightarrow> None),
      today = ''2025-06-01'', year = 2025, strftime_et = (\<lambda>s. None),
      channel_found = True, deliver = (\<lambda>m. True), str_lower = example_lower,
      str_capitalize = example_capitalize\<rparr>"

definition smiths_roster :: bot_state where
  "smiths_roster =
     \<lparr>roster_file = Some [format_player_info will_smith_lad, ohtani,
                           format_player_info will_smith_kc],
      last_atbats_file = None, channel_log = [], console = []\<rparr>"

text \<open>
  A player whose name has accented letters, Jose Ramirez written with e-acute (bytes
  C3 A9) and i-acute (C3 AD), and the query JOSE in capitals with E-acute (C3 89).
\<close>

definition jose_ramirez :: player where
  "jose_ramirez =
     \<lparr>pl_id = 608070,
      pl_name = ''Jos'' @ [CHR 0xC3, CHR 0xA9] @ '' Ram'' @ [CHR 0xC3, CHR 0xAD] @ ''rez'',
      pl_primaryNumber = Some ''11'', pl_team = ''Cleveland Guardians'',
      pl_team_id = Some 114, pl_position = ''3B''\<rparr>"

definition query_jose :: string where
  "query_jose = ''JOS'' @ [CHR 0xC3, CHR 0x89]"

definition ramirez_roster :: bot_state where
  "ramirez_roster =
     \<lparr>roster_file = Some [ohtani, jose_ramirez], last_atbats_file = None,
      channel_log = [], console = []\<rparr>"

text \<open>
  The same service on a day when the schedule request is not answered, and with the
  game feed not answered.
\<close>

definition env_schedule_down :: env where
  "env_schedule_down = (env_of ''In Progress'' True True)\<lparr>today := ''2025-06-02''\<rparr>"

definition env_feed_down :: env where
  "env_feed_down =
     (env_of ''In Progress'' True True)
       \<lparr>http := (\<lambda>ep. case ep of GameFeed k \<Rightarrow> None
                        | _ \<Rightarrow> upstream ''In Progress'' True ep)\<rparr>"

section \<open>Lemmas\<close>

lemma starts_with_prefix: "starts_with a b = prefix a b"
  by (induction a b rule: starts_with.induct) auto

lemma str_in_sublist: "str_in a b = sublist a b"
proof (induction b)
  case Nil
  then show ?case by simp
next
  case (Cons d ds)
  then show ?case by (simp add: starts_with_prefix sublist_Cons_right)
qed

lemma length_filter_same: "(length (filter P xs) = length xs) = (\<forall>x\<in>set xs. P x)"
proof (induction xs)
  case Nil
  then show ?case by simp
next
  case (Cons x xs)
  have le: "length (filter P xs) \<le> length xs" by simp
  show ?case
  proof (cases "P x")
    case True
    with Cons show ?thesis by simp
  next
    case False
    from le have "length (filter P xs) \<noteq> Suc (length xs)" by arith
    with False show ?thesis by simp
  qed
qed

lemma dict_get_update: "dict_get (AList.update k v d) k = v"
  by (simp add: dict_get_def update_conv')

text \<open>The outcomes of \<open>handle_atbat\<close>, one per path through it.\<close>

lemma handle_atbat_cases:
  "handle_atbat e pl g a (la, st) =
     (if ab_id a = dict_get la (str_int (pl_id pl)) then (None, la, st)
      else if \<not> deliver e (atbat_embed pl a g)
      then (Some SendFailed, la,
            st\<lparr>channel_log := channel_log st @ [(atbat_embed pl a g, False)]\<rparr>)
      else if \<not> gameComplete g
      then (None, AList.update (str_int (pl_id pl)) (ab_id a) la,
            st\<lparr>channel_log := channel_log st @ [(atbat_embed pl a g, True)],
               last_atbats_file := Some (AList.update (str_int (pl_id pl)) (ab_id a) la)\<rparr>)
      else (if deliver e (summary_embed pl g) then None else Some SendFailed,
            AList.update (str_int (pl_id pl)) (ab_id a) la,
            st\<lparr>channel_log := channel_log st @ [(atbat_embed pl a g, True),
                                  (summary_embed pl g, deliver e (summary_embed pl g))],
               last_atbats_file := Some (AList.update (str_int (pl_id pl)) (ab_id a) la)\<rparr>))"
  by (simp add: handle_atbat_def post_atbat_update_def post_game_summary_def send_def Let_def)

lemma check_player_resolved:
  assumes "get_player_game_today e (pl_id pl) = Some g"
    and "get_latest_atbat e (pl_id pl) g = Some a"
  shows "check_player e (la, st) pl =
     (if ab_id a = dict_get la (str_int (pl_id pl)) then (la, st)
      else if \<not> deliver e (atbat_embed pl a g)
      then (la, st\<lparr>channel_log := channel_log st @ [(atbat_embed pl a g, False)],
                  console := console st @ [ErrorChecking (pl_name pl) SendFailed]\<rparr>)
      else if \<not> gameComplete g
      then (AList.update (str_int (pl_id pl)) (ab_id a) la,
            st\<lparr>channel_log := channel_log st @ [(atbat_embed pl a g, True)],
               last_atbats_file := Some (AList.update (str_int (pl_id pl)) (ab_id a) la)\<rparr>)
      else (AList.update (str_int (pl_id pl)) (ab_id a) la,
            st\<lparr>channel_log := channel_log st @ [(atbat_embed pl a g, True),
                                  (summary_embed pl g, deliver e (summary_embed pl g))],
               last_atbats_file := Some (AList.update (str_int (pl_id pl)) (ab_id a) la),
               console := console st @ (if deliver e (summary_embed pl g) then []
                                        else [ErrorChecking (pl_name pl) SendFailed])\<rparr>))"
  using assms by (simp add: check_player_def check_player_body_def handle_atbat_cases)

lemma check_player_no_game:
  "get_player_game_today e (pl_id pl) = None \<Longrightarrow> check_player e s pl = s"
  by (simp add: check_player_def check_player_body_def)

lemma check_player_no_atbat:
  "get_player_game_today e (pl_id pl) = Some g \<Longrightarrow> get_latest_atbat e (pl_id pl) g = None
   \<Longrightarrow> check_player e s pl = s"
  by (simp add: check_player_def check_player_body_def)

lemma person_request_failed:
  "http e (People i) = None \<Longrightarrow> get_player_game_today e i = None"
  by (simp add: get_player_game_today_def request_def empty_response_def)

lemma schedule_request_failed:
  "http e (People i) = Some r \<Longrightarrow> people r = Some (p0 # ps) \<Longrightarrow> currentTeam_id p0 = Some t
   \<Longrightarrow> http e (Schedule t (today e)) = None \<Longrightarrow> get_player_game_today e i = None"
  by (simp add: get_player_game_today_def request_def empty_response_def get_or_def)

lemma feed_request_failed:
  "game_pk g = Some k \<Longrightarrow> http e (GameFeed k) = None \<Longrightarrow> get_latest_atbat e i g = None"
  by (simp add: get_latest_atbat_def request_def)

lemma check_roster_append:
  "check_roster e s (xs @ ys) = check_roster e (check_roster e s xs) ys"
  by (simp add: check_roster_def)

lemma check_roster_Cons:
  "check_roster e s (x # xs) = check_roster e (check_player e s x) xs"
  by (simp add: check_roster_def)

subsection \<open>The example, evaluated\<close>

lemma ohtani_key: "str_int (pl_id ohtani) = ''660271''"
  by (simp add: ohtani_def str_int_def str_nat.simps digit_def)

lemma ohtani_game_today:
  "get_player_game_today (env_of state stats_up sends) (pl_id ohtani) = Some (ohtani_game state)"
  by (simp add: get_player_game_today_def request_def env_of_def upstream_def
      empty_response_def ohtani_def ohtani_person_def get_or_def format_game_info_def
      dodgers_game_def ohtani_game_def)

lemma ohtani_season_stats:
  "get_player_season_stats (env_of state stats_up sends) 660271 =
     (if stats_up then ohtani_season else zero_season_stats)"
  by (simp add: get_player_season_stats_def request_def env_of_def upstream_def
      empty_response_def get_or_def ohtani_split_def ohtani_season_def format_average_def
      lstrip_zero_def)

lemma format_homer:
  "format_atbat (env_of state stats_up sends) homer g ss = ohtani_atbat ss"
  by (simp add: format_atbat_def homer_def ohtani_atbat_def get_or_def hit_events_def
      env_of_def ascii_upper_char_def ascii_lower_char_def str_int_def str_nat.simps
      digit_def)

lemma ohtani_latest_atbat:
  "get_latest_atbat (env_of state stats_up sends) (pl_id ohtani) (ohtani_game state) =
     Some (ohtani_atbat (if stats_up then ohtani_season else zero_season_stats))"
proof -
  have plays: "completed_atbat_of 660271 homer"
    by (simp add: completed_atbat_of_def homer_def truthy_def)
  have feed: "request (env_of state stats_up sends) (GameFeed 777001) = feed"
    by (simp add: request_def env_of_def upstream_def)
  have nonempty: "feed \<noteq> empty_response"
    by (simp add: feed_def empty_response_def)
  have all: "allPlays feed = Some [homer]"
    by (simp add: feed_def empty_response_def)
  show ?thesis
    by (simp add: get_latest_atbat_def ohtani_game_def ohtani_def feed nonempty all
        get_or_def plays format_homer ohtani_season_stats)
qed

lemma check_games_single:
  "roster_file st = Some [pl] \<Longrightarrow> channel_found e
   \<Longrightarrow> check_games e st = snd (check_player e (get_or [] (last_atbats_file st), st) pl)"
  by (simp add: check_games_def check_roster_def get_or_def)

lemma skipped_entry:
  assumes "\<And>s. check_player e s pl = s"
  shows "check_roster e s0 (xs @ pl # ys) = check_roster e s0 (xs @ ys)"
  using assms by (simp add: check_roster_append check_roster_Cons)

lemma ohtani_first_cycle:
  "check_games (env_of state stats_up True) st0 =
     st0\<lparr>channel_log :=
           (atbat_embed ohtani
              (ohtani_atbat (if stats_up then ohtani_season else zero_season_stats))
              (ohtani_game state), True)
           # (if state = ''Final'' then [(summary_embed ohtani (ohtani_game state), True)]
              else []),
         last_atbats_file := Some [(''660271'', Some 12)]\<rparr>"
proof -
  have roster: "roster_file st0 = Some [ohtani]" and markers: "last_atbats_file st0 = None"
    and log: "channel_log st0 = []"
    by (simp_all add: st0_def)
  have found: "channel_found (env_of state stats_up True)"
    and sends: "\<And>s u m. deliver (env_of s u True) m"
    by (simp_all add: env_of_def)
  have ident: "\<And>ss. ab_id (ohtani_atbat ss) = Some 12"
    by (simp add: ohtani_atbat_def)
  have complete: "gameComplete (ohtani_game state) = (state = ''Final'')"
    by (simp add: ohtani_game_def)
  show ?thesis
    by (simp add: check_games_single [OF roster found] markers get_or_def
        check_player_resolved [OF ohtani_game_today ohtani_latest_atbat]
        ident dict_get_def sends complete ohtani_key log)
qed

lemma ohtani_second_cycle:
  assumes "roster_file st = Some [ohtani]"
    and "last_atbats_file st = Some [(''660271'', Some 12)]"
  shows "check_games (env_of state stats_up sends) st = st"
proof -
  have found: "channel_found (env_of state stats_up sends)"
    by (simp add: env_of_def)
  have ident: "\<And>ss. ab_id (ohtani_atbat ss) = Some 12"
    by (simp add: ohtani_atbat_def)
  show ?thesis
    by (simp add: check_games_single [OF assms(1) found] assms(2) get_or_def
        check_player_resolved [OF ohtani_game_today ohtani_latest_atbat]
        ident dict_get_def ohtani_key)
qed

lemma format_average_strips:
  "s \<noteq> [] \<Longrightarrow> hd s \<noteq> CHR ''0''
   \<Longrightarrow> format_average (Some (replicate n (CHR ''0'') @ s)) = s"
  by (cases s) (simp_all add: format_average_def get_or_def lstrip_zero_def dropWhile_append3)

lemma format_average_missing: "format_average None = ''.000''"
  by (simp add: format_average_def get_or_def lstrip_zero_def)

lemma season_stats_without_split:
  "stats (request e (PeopleStats i (year e))) = None
   \<or> stats (request e (PeopleStats i (year e))) = Some []
   \<or> (\<exists>g gs. stats (request e (PeopleStats i (year e))) = Some (g # gs) \<and> splits g = [])
   \<Longrightarrow> get_player_season_stats e i = zero_season_stats"
  by (auto simp add: get_player_season_stats_def get_or_def)

lemma game_today_has_no_player_stats:
  "get_player_game_today e i = Some g \<Longrightarrow> player_stats g = None"
  by (auto simp add: get_player_game_today_def format_game_info_def Let_def
      split: option.splits list.splits if_splits)

lemma summary_without_player_stats:
  "player_stats g = None
   \<Longrightarrow> hd (e_fields (summary_embed pl g)) = (''Final Line'', ''0-for-0'', True)"
  by (simp add: summary_embed_def str_int_def str_nat.simps digit_def)

text \<open>
  What one roster entry hands to the channel, path by path, when its game and latest
  at-bat are resolved: the summary follows a delivered notification of a new at-bat of
  a complete game, and nothing else.
\<close>

lemma summary_follows_new_atbat_only:
  assumes game: "get_player_game_today e (pl_id pl) = Some g"
    and latest: "get_latest_atbat e (pl_id pl) g = Some a"
    and step: "check_player e (la, st) pl = (la', st')"
  shows "(ab_id a \<noteq> dict_get la (str_int (pl_id pl)) \<and> deliver e (atbat_embed pl a g)
          \<and> gameComplete g \<longrightarrow>
            channel_log st' = channel_log st
              @ [(atbat_embed pl a g, True),
                 (summary_embed pl g, deliver e (summary_embed pl g))])
     \<and> (ab_id a \<noteq> dict_get la (str_int (pl_id pl))
          \<and> \<not> (deliver e (atbat_embed pl a g) \<and> gameComplete g) \<longrightarrow>
            channel_log st' = channel_log st
              @ [(atbat_embed pl a g, deliver e (atbat_embed pl a g))])
     \<and> (ab_id a = dict_get la (str_int (pl_id pl)) \<longrightarrow> channel_log st' = channel_log st)"
proof -
  note cp = check_player_resolved [OF game latest, of la st]
  show ?thesis
  proof (cases "ab_id a = dict_get la (str_int (pl_id pl))")
    case True
    with step cp have "st' = st" by simp
    with True show ?thesis by simp
  next
    case new: False
    show ?thesis
    proof (cases "deliver e (atbat_embed pl a g)")
      case False
      with new step cp
      have "channel_log st' = channel_log st @ [(atbat_embed pl a g, False)]"
        by auto
      with new False show ?thesis by simp
    next
      case sent: True
      show ?thesis
      proof (cases "gameComplete g")
        case False
        with new sent step cp
        have "channel_log st' = channel_log st @ [(atbat_embed pl a g, True)]"
          by auto
        with new sent False show ?thesis by simp
      next
        case True
        with new sent step cp
        have "channel_log st' = channel_log st
              @ [(atbat_embed pl a g, True),
                 (summary_embed pl g, deliver e (summary_embed pl g))]"
          by auto
        with new sent True show ?thesis by simp
      qed
    qed
  qed
qed

text \<open>
  The example polled for the first time when the game is already final: the at-bat
  notification and the summary. Polled again from the resulting state: nothing.
\<close>

lemma summary_follows_new_atbat_only_example:
  "channel_log (snd (check_player (env_of ''Final'' True True) ([], st0) ohtani))
     = [(atbat_embed ohtani (ohtani_atbat ohtani_season) (ohtani_game ''Final''), True),
        (summary_embed ohtani (ohtani_game ''Final''), True)]
   \<and> channel_log (snd (check_player (env_of ''Final'' True True)
                          ([(''660271'', Some 12)], st0) ohtani)) = []"
proof -
  let ?e = "env_of ''Final'' True True"
  let ?g = "ohtani_game ''Final''"
  let ?a = "ohtani_atbat ohtani_season"
  have latest: "get_latest_atbat ?e (pl_id ohtani) ?g = Some ?a"
    using ohtani_latest_atbat [of "''Final''" True True] by simp
  have ident: "ab_id ?a = Some 12"
    by (simp add: ohtani_atbat_def)
  have log0: "channel_log st0 = []"
    by (simp add: st0_def)
  have sends: "\<And>m. deliver ?e m"
    by (simp add: env_of_def)
  have first: "ab_id ?a \<noteq> dict_get [] (str_int (pl_id ohtani))
      \<and> deliver ?e (atbat_embed ohtani ?a ?g) \<and> gameComplete ?g"
    by (simp add: ident dict_get_def sends ohtani_game_def)
  have again: "ab_id ?a = dict_get [(''660271'', Some 12)] (str_int (pl_id ohtani))"
    by (simp add: ident dict_get_def ohtani_key)
  obtain la1 st1 where step1: "check_player ?e ([], st0) ohtani = (la1, st1)"
    by (cases "check_player ?e ([], st0) ohtani")
  obtain la2 st2 where step2:
    "check_player ?e ([(''660271'', Some 12)], st0) ohtani = (la2, st2)"
    by (cases "check_player ?e ([(''660271'', Some 12)], st0) ohtani")
  note posted = summary_follows_new_atbat_only
                  [OF ohtani_game_today latest step1, THEN conjunct1, THEN mp, OF first]
  note silent = summary_follows_new_atbat_only
                  [OF ohtani_game_today latest step2, THEN conjunct2, THEN conjunct2, THEN mp,
                   OF again]
  from posted silent show ?thesis
    by (simp add: step1 step2 log0 sends)
qed

section \<open>The claims\<close>

text \<open>
  C1. For an entry whose game and latest at-bat are resolved, an at-bat notification is
  handed to the channel if and only if the id of the latest at-bat differs from the
  stored marker of the entry (a missing marker reads as \<open>None\<close>, so an at-bat with an id
  is always notified when there is no marker). Once the notification is delivered, the
  marker of the entry, in memory and in the file, is that id, and a later poll whose
  latest at-bat has the same id changes nothing: no second notification.
\<close>

theorem new_atbat_notified_once:
  assumes game: "get_player_game_today e (pl_id pl) = Some g"
    and latest: "get_latest_atbat e (pl_id pl) g = Some a"
    and step: "check_player e (la, st) pl = (la', st')"
  shows "(channel_log st' \<noteq> channel_log st) = (ab_id a \<noteq> dict_get la (str_int (pl_id pl)))
     \<and> (ab_id a = dict_get la (str_int (pl_id pl)) \<longrightarrow> la' = la \<and> st' = st)
     \<and> (ab_id a \<noteq> dict_get la (str_int (pl_id pl)) \<longrightarrow>
          (\<exists>rest. channel_log st' =
             channel_log st @ (atbat_embed pl a g, deliver e (atbat_embed pl a g)) # rest))
     \<and> (map_of la (str_int (pl_id pl)) = None \<and> ab_id a \<noteq> None \<longrightarrow>
          channel_log st' \<noteq> channel_log st)
     \<and> (ab_id a \<noteq> dict_get la (str_int (pl_id pl)) \<and> deliver e (atbat_embed pl a g) \<longrightarrow>
          dict_get la' (str_int (pl_id pl)) = ab_id a \<and> last_atbats_file st' = Some la'
          \<and> (\<forall>e2 g2 a2. get_player_game_today e2 (pl_id pl) = Some g2
                \<and> get_latest_atbat e2 (pl_id pl) g2 = Some a2 \<and> ab_id a2 = ab_id a
                \<longrightarrow> check_player e2 (la', st') pl = (la', st')))"
proof -
  note cp = check_player_resolved [OF game latest, of la st]
  have c1: "(channel_log st' \<noteq> channel_log st) = (ab_id a \<noteq> dict_get la (str_int (pl_id pl)))"
    using step unfolding cp by (auto split: if_splits)
  have c2: "ab_id a = dict_get la (str_int (pl_id pl)) \<longrightarrow> la' = la \<and> st' = st"
    using step unfolding cp by (auto split: if_splits)
  have c3: "ab_id a \<noteq> dict_get la (str_int (pl_id pl)) \<longrightarrow>
          (\<exists>rest. channel_log st' =
             channel_log st @ (atbat_embed pl a g, deliver e (atbat_embed pl a g)) # rest)"
    using step unfolding cp by (auto split: if_splits)
  have c4: "map_of la (str_int (pl_id pl)) = None \<and> ab_id a \<noteq> None \<longrightarrow>
          channel_log st' \<noteq> channel_log st"
    unfolding c1 by (auto simp add: dict_get_def)
  have c5: "ab_id a \<noteq> dict_get la (str_int (pl_id pl)) \<and> deliver e (atbat_embed pl a g) \<longrightarrow>
          dict_get la' (str_int (pl_id pl)) = ab_id a \<and> last_atbats_file st' = Some la'"
    using step unfolding cp by (auto split: if_splits simp add: dict_get_update)
  have c6: "ab_id a \<noteq> dict_get la (str_int (pl_id pl)) \<and> deliver e (atbat_embed pl a g) \<longrightarrow>
      (\<forall>e2 g2 a2. get_player_game_today e2 (pl_id pl) = Some g2
                \<and> get_latest_atbat e2 (pl_id pl) g2 = Some a2 \<and> ab_id a2 = ab_id a
                \<longrightarrow> check_player e2 (la', st') pl = (la', st'))"
  proof (intro impI allI)
    fix e2 g2 a2
    assume new: "ab_id a \<noteq> dict_get la (str_int (pl_id pl)) \<and> deliver e (atbat_embed pl a g)"
      and again: "get_player_game_today e2 (pl_id pl) = Some g2
                \<and> get_latest_atbat e2 (pl_id pl) g2 = Some a2 \<and> ab_id a2 = ab_id a"
    from new c5 have "dict_get la' (str_int (pl_id pl)) = ab_id a2" using again by simp
    then show "check_player e2 (la', st') pl = (la', st')"
      using again by (simp add: check_player_resolved)
  qed
  from c1 c2 c3 c4 c5 c6 show ?thesis by blast
qed

text \<open>
  The scenario of the first poll: no marker, one qualifying play with index 12. The
  notification is handed to the channel, the marker becomes 12, and polling again
  changes nothing.
\<close>

theorem new_atbat_notified_once_witness:
  "channel_log (snd (check_player (env_of ''In Progress'' True True) ([], st0) ohtani)) \<noteq> []
   \<and> dict_get (fst (check_player (env_of ''In Progress'' True True) ([], st0) ohtani))
        ''660271'' = Some 12
   \<and> check_player (env_of ''In Progress'' True True)
        (check_player (env_of ''In Progress'' True True) ([], st0) ohtani) ohtani
      = check_player (env_of ''In Progress'' True True) ([], st0) ohtani"
proof -
  let ?e = "env_of ''In Progress'' True True"
  let ?g = "ohtani_game ''In Progress''"
  let ?a = "ohtani_atbat ohtani_season"
  have game: "get_player_game_today ?e (pl_id ohtani) = Some ?g"
    by (rule ohtani_game_today)
  have latest: "get_latest_atbat ?e (pl_id ohtani) ?g = Some ?a"
    using ohtani_latest_atbat [of "''In Progress''" True True] by simp
  have ident: "ab_id ?a = Some 12"
    by (simp add: ohtani_atbat_def)
  have new: "ab_id ?a \<noteq> dict_get [] (str_int (pl_id ohtani))"
    by (simp add: ident dict_get_def)
  have sends: "deliver ?e (atbat_embed ohtani ?a ?g)"
    by (simp add: env_of_def)
  have log0: "channel_log st0 = []"
    by (simp add: st0_def)
  obtain la' st' where step: "check_player ?e ([], st0) ohtani = (la', st')"
    by (cases "check_player ?e ([], st0) ohtani")
  note main = new_atbat_notified_once [OF game latest step]
  from main [THEN conjunct1] new have a: "channel_log st' \<noteq> channel_log st0"
    by (rule iffD2)
  have pq: "ab_id ?a \<noteq> dict_get [] (str_int (pl_id ohtani))
            \<and> deliver ?e (atbat_embed ohtani ?a ?g)"
    using new sends by (rule conjI)
  note r = main [THEN conjunct2, THEN conjunct2, THEN conjunct2, THEN conjunct2, THEN mp, OF pq]
  from r have b: "dict_get la' (str_int (pl_id ohtani)) = ab_id ?a"
    by (rule conjunct1)
  from r have "\<forall>e2 g2 a2. get_player_game_today e2 (pl_id ohtani) = Some g2
                \<and> get_latest_atbat e2 (pl_id ohtani) g2 = Some a2 \<and> ab_id a2 = ab_id ?a
                \<longrightarrow> check_player e2 (la', st') ohtani = (la', st')"
    by simp
  with game latest have c: "check_player ?e (la', st') ohtani = (la', st')"
    by simp
  from a b c show ?thesis
    by (simp add: step ohtani_key ident log0)
qed

text \<open>
  C2. For an entry whose game and latest at-bat are resolved: when the at-bat is new
  and its notification is delivered, the marker dictionary with the new id is written
  to the file within the processing of this entry, so that the entries after it in the
  roster are processed from a state whose file already holds it; when the post fails,
  the marker in memory and the file are unchanged. The file and the dictionary change
  only with a delivered notification of a new at-bat.
\<close>

theorem marker_written_after_delivered_post:
  assumes game: "get_player_game_today e (pl_id pl) = Some g"
    and latest: "get_latest_atbat e (pl_id pl) g = Some a"
    and step: "check_player e (la, st) pl = (la', st')"
  shows "(ab_id a \<noteq> dict_get la (str_int (pl_id pl)) \<and> deliver e (atbat_embed pl a g) \<longrightarrow>
            la' = AList.update (str_int (pl_id pl)) (ab_id a) la
            \<and> last_atbats_file st' = Some (AList.update (str_int (pl_id pl)) (ab_id a) la)
            \<and> (\<forall>rest. check_roster e (la, st) (pl # rest) = check_roster e (la', st') rest))
     \<and> (\<not> deliver e (atbat_embed pl a g) \<longrightarrow>
            la' = la \<and> last_atbats_file st' = last_atbats_file st)
     \<and> (last_atbats_file st' \<noteq> last_atbats_file st \<or> la' \<noteq> la \<longrightarrow>
            ab_id a \<noteq> dict_get la (str_int (pl_id pl)) \<and> deliver e (atbat_embed pl a g)
            \<and> (atbat_embed pl a g, True) \<in> set (channel_log st'))"
proof -
  note cp = check_player_resolved [OF game latest, of la st]
  have rest: "\<forall>rest. check_roster e (la, st) (pl # rest) = check_roster e (la', st') rest"
    by (simp add: check_roster_Cons step)
  show ?thesis
  proof (cases "ab_id a = dict_get la (str_int (pl_id pl))")
    case True
    with step cp have "la' = la" and "st' = st" by simp_all
    with True show ?thesis by simp
  next
    case new: False
    show ?thesis
    proof (cases "deliver e (atbat_embed pl a g)")
      case False
      with new step cp have "la' = la" and "last_atbats_file st' = last_atbats_file st"
        by auto
      with False show ?thesis by simp
    next
      case True
      with new step cp
      have mem: "la' = AList.update (str_int (pl_id pl)) (ab_id a) la"
        and disk: "last_atbats_file st' = Some (AList.update (str_int (pl_id pl)) (ab_id a) la)"
        and log: "(atbat_embed pl a g, True) \<in> set (channel_log st')"
        by (auto split: if_splits)
      from new True mem disk log rest show ?thesis by blast
    qed
  qed
qed

text \<open>
  The first poll of the example with a channel that delivers: the file holds the marker
  12 after the entry. The same poll with a channel that refuses the message: the file
  is still missing.
\<close>

theorem marker_written_after_delivered_post_witness:
  "last_atbats_file (snd (check_player (env_of ''In Progress'' True True) ([], st0) ohtani))
     = Some [(''660271'', Some 12)]
   \<and> last_atbats_file (snd (check_player (env_of ''In Progress'' True False) ([], st0) ohtani))
     = None
   \<and> fst (check_player (env_of ''In Progress'' True False) ([], st0) ohtani) = []"
proof -
  let ?g = "ohtani_game ''In Progress''"
  let ?a = "ohtani_atbat ohtani_season"
  have latest: "\<And>sends. get_latest_atbat (env_of ''In Progress'' True sends) (pl_id ohtani) ?g
                  = Some ?a"
    using ohtani_latest_atbat [of "''In Progress''" True] by simp
  have ident: "ab_id ?a = Some 12"
    by (simp add: ohtani_atbat_def)
  have new: "ab_id ?a \<noteq> dict_get [] (str_int (pl_id ohtani))"
    by (simp add: ident dict_get_def)
  have file0: "last_atbats_file st0 = None"
    by (simp add: st0_def)
  obtain la1 st1 where step1:
    "check_player (env_of ''In Progress'' True True) ([], st0) ohtani = (la1, st1)"
    by (cases "check_player (env_of ''In Progress'' True True) ([], st0) ohtani")
  obtain la2 st2 where step2:
    "check_player (env_of ''In Progress'' True False) ([], st0) ohtani = (la2, st2)"
    by (cases "check_player (env_of ''In Progress'' True False) ([], st0) ohtani")
  have sends: "deliver (env_of ''In Progress'' True True) (atbat_embed ohtani ?a ?g)"
    by (simp add: env_of_def)
  have refuses: "\<not> deliver (env_of ''In Progress'' True False) (atbat_embed ohtani ?a ?g)"
    by (simp add: env_of_def)
  have delivered_new: "ab_id ?a \<noteq> dict_get [] (str_int (pl_id ohtani))
      \<and> deliver (env_of ''In Progress'' True True) (atbat_embed ohtani ?a ?g)"
    using new sends by (rule conjI)
  note written = marker_written_after_delivered_post
                   [OF ohtani_game_today latest step1, THEN conjunct1, THEN mp, OF delivered_new]
  from written
  have a: "last_atbats_file st1 = Some (AList.update (str_int (pl_id ohtani)) (ab_id ?a) [])"
    by (rule conjunct2 [THEN conjunct1])
  note kept = marker_written_after_delivered_post
                [OF ohtani_game_today latest step2, THEN conjunct2, THEN conjunct1, THEN mp,
                 OF refuses]
  from kept have b: "la2 = [] \<and> last_atbats_file st2 = last_atbats_file st0" .
  from a b show ?thesis
    by (simp add: step1 step2 ohtani_key ident file0)
qed

text \<open>
  C3 against the code. The upstream list of the example holds two players named Will
  Smith. \<open>search_player\<close> answers the query "will smith" with the first of them alone, as
  one record and not a list, although the second matches too; and it answers a query
  that matches nobody with \<open>None\<close>, not with an empty list.
\<close>

theorem search_player_returns_first_match_only:
  "search_player env_search ''will smith'' = Some (format_player_info will_smith_lad)
   \<and> str_in (str_lower env_search ''will smith'') (str_lower env_search (fullName will_smith_kc))
   \<and> format_player_info will_smith_kc \<noteq> format_player_info will_smith_lad
   \<and> search_player env_search ''nobody'' = None"
proof -
  have people: "people (request env_search (SportsPlayers (year env_search)))
      = Some [ohtani_person, will_smith_lad, will_smith_kc]"
    by (simp add: request_def env_search_def empty_response_def)
  have first: "\<not> str_in (str_lower env_search ''will smith'') (str_lower env_search (fullName ohtani_person))"
    by code_simp
  have second: "str_in (str_lower env_search ''will smith'') (str_lower env_search (fullName will_smith_lad))"
    by code_simp
  have third: "str_in (str_lower env_search ''will smith'') (str_lower env_search (fullName will_smith_kc))"
    by code_simp
  have other: "format_player_info will_smith_kc \<noteq> format_player_info will_smith_lad"
    by (simp add: format_player_info_def will_smith_kc_def will_smith_lad_def)
  have nobody: "\<not> str_in (str_lower env_search ''nobody'') (str_lower env_search (fullName ohtani_person))"
    "\<not> str_in (str_lower env_search ''nobody'') (str_lower env_search (fullName will_smith_lad))"
    "\<not> str_in (str_lower env_search ''nobody'') (str_lower env_search (fullName will_smith_kc))"
    by code_simp+
  from first second third other nobody show ?thesis
    by (simp add: search_player_def people get_or_def)
qed

text \<open>
  C4, as the claim states it, fails. In the example the season-stats request is not
  answered (a transport error while the entry is processed); the at-bat is notified
  all the same, with the placeholder statistics, and the marker is written.
\<close>

theorem stats_failure_still_notifies_counterexample:
  "http (env_of ''In Progress'' False True)
        (PeopleStats (pl_id ohtani) (year (env_of ''In Progress'' False True))) = None
   \<and> channel_log (check_games (env_of ''In Progress'' False True) st0)
       = [(atbat_embed ohtani (ohtani_atbat zero_season_stats) (ohtani_game ''In Progress''),
           True)]
   \<and> last_atbats_file (check_games (env_of ''In Progress'' False True) st0)
       = Some [(''660271'', Some 12)]"
proof -
  have down: "http (env_of ''In Progress'' False True)
        (PeopleStats (pl_id ohtani) (year (env_of ''In Progress'' False True))) = None"
    by (simp add: env_of_def upstream_def)
  from down show ?thesis
    by (simp add: ohtani_first_cycle)
qed

text \<open>
  C4, amended. When the player request, the schedule request or the game-feed request
  made for a roster entry is not answered, the entry changes nothing (no post, no
  marker), and the cycle gives what it gives without the entry. When the at-bat post
  fails, no notification is delivered and the marker, in memory and in the file, is
  unchanged. Whatever happens to an entry, the entries after it are processed, from the
  state in which it ended.
\<close>

theorem failed_entry_is_isolated:
  "(http e (People (pl_id pl)) = None \<longrightarrow>
      check_player e s pl = s
      \<and> check_roster e s0 (xs @ pl # ys) = check_roster e s0 (xs @ ys))
   \<and> (\<forall>r p0 ps t. http e (People (pl_id pl)) = Some r \<and> people r = Some (p0 # ps)
         \<and> currentTeam_id p0 = Some t \<and> http e (Schedule t (today e)) = None \<longrightarrow>
      check_player e s pl = s
      \<and> check_roster e s0 (xs @ pl # ys) = check_roster e s0 (xs @ ys))
   \<and> (\<forall>g k. get_player_game_today e (pl_id pl) = Some g \<and> game_pk g = Some k
         \<and> http e (GameFeed k) = None \<longrightarrow>
      check_player e s pl = s
      \<and> check_roster e s0 (xs @ pl # ys) = check_roster e s0 (xs @ ys))
   \<and> (\<forall>g a. get_player_game_today e (pl_id pl) = Some g
         \<and> get_latest_atbat e (pl_id pl) g = Some a \<and> \<not> deliver e (atbat_embed pl a g) \<longrightarrow>
      delivered (snd (check_player e s pl)) = delivered (snd s)
      \<and> fst (check_player e s pl) = fst s
      \<and> last_atbats_file (snd (check_player e s pl)) = last_atbats_file (snd s))
   \<and> check_roster e s0 (xs @ pl # ys)
       = check_roster e (check_player e (check_roster e s0 xs) pl) ys"
proof -
  have person: "http e (People (pl_id pl)) = None \<longrightarrow>
      check_player e s pl = s
      \<and> check_roster e s0 (xs @ pl # ys) = check_roster e s0 (xs @ ys)"
  proof
    assume "http e (People (pl_id pl)) = None"
    then have "\<And>s. check_player e s pl = s"
      by (simp add: person_request_failed check_player_no_game)
    then show "check_player e s pl = s
      \<and> check_roster e s0 (xs @ pl # ys) = check_roster e s0 (xs @ ys)"
      by (simp add: skipped_entry)
  qed
  have schedule: "\<forall>r p0 ps t. http e (People (pl_id pl)) = Some r \<and> people r = Some (p0 # ps)
         \<and> currentTeam_id p0 = Some t \<and> http e (Schedule t (today e)) = None \<longrightarrow>
      check_player e s pl = s
      \<and> check_roster e s0 (xs @ pl # ys) = check_roster e s0 (xs @ ys)"
  proof (intro allI impI)
    fix r p0 ps t
    assume "http e (People (pl_id pl)) = Some r \<and> people r = Some (p0 # ps)
         \<and> currentTeam_id p0 = Some t \<and> http e (Schedule t (today e)) = None"
    then have "get_player_game_today e (pl_id pl) = None"
      by (metis schedule_request_failed)
    then have "\<And>s. check_player e s pl = s"
      by (simp add: check_player_no_game)
    then show "check_player e s pl = s
      \<and> check_roster e s0 (xs @ pl # ys) = check_roster e s0 (xs @ ys)"
      by (simp add: skipped_entry)
  qed
  have feed_down: "\<forall>g k. get_player_game_today e (pl_id pl) = Some g \<and> game_pk g = Some k
         \<and> http e (GameFeed k) = None \<longrightarrow>
      check_player e s pl = s
      \<and> check_roster e s0 (xs @ pl # ys) = check_roster e s0 (xs @ ys)"
  proof (intro allI impI)
    fix g k
    assume a: "get_player_game_today e (pl_id pl) = Some g \<and> game_pk g = Some k
         \<and> http e (GameFeed k) = None"
    then have "get_latest_atbat e (pl_id pl) g = None"
      by (simp add: feed_request_failed)
    with a have "\<And>s. check_player e s pl = s"
      by (simp add: check_player_no_atbat)
    then show "check_player e s pl = s
      \<and> check_roster e s0 (xs @ pl # ys) = check_roster e s0 (xs @ ys)"
      by (simp add: skipped_entry)
  qed
  have post: "\<forall>g a. get_player_game_today e (pl_id pl) = Some g
         \<and> get_latest_atbat e (pl_id pl) g = Some a \<and> \<not> deliver e (atbat_embed pl a g) \<longrightarrow>
      delivered (snd (check_player e s pl)) = delivered (snd s)
      \<and> fst (check_player e s pl) = fst s
      \<and> last_atbats_file (snd (check_player e s pl)) = last_atbats_file (snd s)"
  proof (intro allI impI)
    fix g a
    assume a: "get_player_game_today e (pl_id pl) = Some g
         \<and> get_latest_atbat e (pl_id pl) g = Some a \<and> \<not> deliver e (atbat_embed pl a g)"
    obtain la st where s: "s = (la, st)" by (cases s)
    from a have cp: "check_player e (la, st) pl =
        (if ab_id a = dict_get la (str_int (pl_id pl)) then (la, st)
         else (la, st\<lparr>channel_log := channel_log st @ [(atbat_embed pl a g, False)],
                     console := console st @ [ErrorChecking (pl_name pl) SendFailed]\<rparr>))"
      by (simp add: check_player_resolved)
    show "delivered (snd (check_player e s pl)) = delivered (snd s)
      \<and> fst (check_player e s pl) = fst s
      \<and> last_atbats_file (snd (check_player e s pl)) = last_atbats_file (snd s)"
      unfolding s cp by (simp add: delivered_def)
  qed
  have continues: "check_roster e s0 (xs @ pl # ys)
       = check_roster e (check_player e (check_roster e s0 xs) pl) ys"
    by (simp add: check_roster_append check_roster_Cons)
  from person schedule feed_down post continues show ?thesis
    by (intro conjI)
qed

text \<open>
  The example with each failure in turn: an entry whose player request is not answered
  (alone, and in front of an entry that is then processed as if it were first), the
  schedule request not answered, the game feed not answered, the channel refusing the
  post.
\<close>

theorem failed_entry_is_isolated_witness:
  "check_player (env_of ''In Progress'' True True) ([], st0) (ohtani\<lparr>pl_id := 1\<rparr>) = ([], st0)
   \<and> check_roster (env_of ''In Progress'' True True) ([], st0) ([] @ ohtani\<lparr>pl_id := 1\<rparr> # [ohtani])
       = check_roster (env_of ''In Progress'' True True) ([], st0) ([] @ [ohtani])
   \<and> check_player env_schedule_down ([], st0) ohtani = ([], st0)
   \<and> check_player env_feed_down ([], st0) ohtani = ([], st0)
   \<and> delivered (snd (check_player (env_of ''In Progress'' True False) ([], st0) ohtani)) = []
   \<and> last_atbats_file (snd (check_player (env_of ''In Progress'' True False) ([], st0) ohtani))
       = None"
proof -
  let ?up = "env_of ''In Progress'' True True"
  let ?mute = "env_of ''In Progress'' True False"
  let ?g = "ohtani_game ''In Progress''"
  let ?a = "ohtani_atbat ohtani_season"
  have person_down: "http ?up (People (pl_id (ohtani\<lparr>pl_id := 1\<rparr>))) = None"
    by (simp add: env_of_def upstream_def)
  note a = failed_entry_is_isolated
             [where e = ?up and pl = "ohtani\<lparr>pl_id := 1\<rparr>" and s = "([], st0)"
                and ?s0.0 = "([], st0)" and xs = "[]" and ys = "[ohtani]",
              THEN conjunct1, THEN mp, OF person_down]
  have schedule_down:
    "http env_schedule_down (People (pl_id ohtani))
       = Some (empty_response\<lparr>people := Some [ohtani_person]\<rparr>)
     \<and> people (empty_response\<lparr>people := Some [ohtani_person]\<rparr>) = Some (ohtani_person # [])
     \<and> currentTeam_id ohtani_person = Some 119
     \<and> http env_schedule_down (Schedule 119 (today env_schedule_down)) = None"
    by (simp add: env_schedule_down_def env_of_def upstream_def ohtani_def ohtani_person_def)
  note b = failed_entry_is_isolated
             [where e = env_schedule_down and pl = ohtani and s = "([], st0)",
              THEN conjunct2, THEN conjunct1, THEN spec, THEN spec, THEN spec, THEN spec,
              THEN mp, OF schedule_down]
  have feed_down:
    "get_player_game_today env_feed_down (pl_id ohtani) = Some ?g
     \<and> game_pk ?g = Some 777001
     \<and> http env_feed_down (GameFeed 777001) = None"
    by (simp add: get_player_game_today_def request_def env_feed_down_def env_of_def
        upstream_def empty_response_def ohtani_def ohtani_person_def get_or_def
        format_game_info_def dodgers_game_def ohtani_game_def)
  note c = failed_entry_is_isolated
             [where e = env_feed_down and pl = ohtani and s = "([], st0)",
              THEN conjunct2, THEN conjunct2, THEN conjunct1, THEN spec, THEN spec,
              THEN mp, OF feed_down]
  have latest: "get_latest_atbat ?mute (pl_id ohtani) ?g = Some ?a"
    using ohtani_latest_atbat [of "''In Progress''" True False] by simp
  have refused:
    "get_player_game_today ?mute (pl_id ohtani) = Some ?g
     \<and> get_latest_atbat ?mute (pl_id ohtani) ?g = Some ?a
     \<and> \<not> deliver ?mute (atbat_embed ohtani ?a ?g)"
    using ohtani_game_today [of "''In Progress''" True False] latest
    by (simp add: env_of_def)
  note d = failed_entry_is_isolated
             [where e = ?mute and pl = ohtani and s = "([], st0)",
              THEN conjunct2, THEN conjunct2, THEN conjunct2, THEN conjunct1,
              THEN spec, THEN spec, THEN mp, OF refused]
  have start: "delivered st0 = []" and nofile: "last_atbats_file st0 = None"
    by (simp_all add: delivered_def st0_def)
  from a b c d show ?thesis
    by (simp add: start nofile)
qed

text \<open>
  C5 against the code. In the example the game is final and the box score of the feed
  credits the player with 2 hits in 4 at-bats; \<open>get_player_game_stats\<close> finds that line,
  but nothing calls it: the summary handed to the channel reads "0-for-0".
\<close>

theorem summary_ignores_box_score:
  "get_player_game_stats (env_of ''Final'' True True) (pl_id ohtani) 777001
     = \<lparr>gs_hits = 2, gs_atbats = 4, gs_rbi = 1, gs_runs = 1\<rparr>
   \<and> channel_log (check_games (env_of ''Final'' True True) st0)
     = [(atbat_embed ohtani (ohtani_atbat ohtani_season) (ohtani_game ''Final''), True),
        (summary_embed ohtani (ohtani_game ''Final''), True)]
   \<and> e_fields (summary_embed ohtani (ohtani_game ''Final''))
     = [(''Final Line'', ''0-for-0'', True),
        (''Game Result'', ''**New York Yankees 2, Los Angeles Dodgers 3**'', False)]"
proof -
  have box: "get_player_game_stats (env_of ''Final'' True True) (pl_id ohtani) 777001
     = \<lparr>gs_hits = 2, gs_atbats = 4, gs_rbi = 1, gs_runs = 1\<rparr>"
    by (simp add: get_player_game_stats_def request_def env_of_def upstream_def feed_def
        empty_response_def get_or_def ohtani_box_def ohtani_def)
  have log: "channel_log (check_games (env_of ''Final'' True True) st0)
     = [(atbat_embed ohtani (ohtani_atbat ohtani_season) (ohtani_game ''Final''), True),
        (summary_embed ohtani (ohtani_game ''Final''), True)]"
    by (simp add: ohtani_first_cycle)
  have line: "e_fields (summary_embed ohtani (ohtani_game ''Final''))
     = [(''Final Line'', ''0-for-0'', True),
        (''Game Result'', ''**New York Yankees 2, Los Angeles Dodgers 3**'', False)]"
    by (simp add: summary_embed_def ohtani_game_def str_int_def str_nat.simps digit_def)
  from box log line show ?thesis by simp
qed

text \<open>
  C6 against the code. In the example the at-bat 12 is notified while the game is in
  progress; at the next poll the game is final and the latest at-bat is still 12. This
  is the cycle in which completion is first observed, and it hands nothing to the
  channel: the summary of the game is never posted, although \<open>post_game_summary\<close> is
  documented to post it when the game completes.
\<close>

theorem no_summary_when_game_completes:
  "\<not> gameComplete (ohtani_game ''In Progress'')
   \<and> get_player_game_today (env_of ''Final'' True True) (pl_id ohtani)
       = Some (ohtani_game ''Final'')
   \<and> gameComplete (ohtani_game ''Final'')
   \<and> channel_log (check_games (env_of ''In Progress'' True True) st0)
       = [(atbat_embed ohtani (ohtani_atbat ohtani_season) (ohtani_game ''In Progress''), True)]
   \<and> check_games (env_of ''Final'' True True)
         (check_games (env_of ''In Progress'' True True) st0)
       = check_games (env_of ''In Progress'' True True) st0"
proof -
  have first: "channel_log (check_games (env_of ''In Progress'' True True) st0)
       = [(atbat_embed ohtani (ohtani_atbat ohtani_season) (ohtani_game ''In Progress''), True)]"
    by (simp add: ohtani_first_cycle)
  have roster0: "roster_file st0 = Some [ohtani]"
    by (simp add: st0_def)
  have roster: "roster_file (check_games (env_of ''In Progress'' True True) st0) = Some [ohtani]"
    by (simp add: ohtani_first_cycle roster0)
  have marker: "last_atbats_file (check_games (env_of ''In Progress'' True True) st0)
       = Some [(''660271'', Some 12)]"
    by (simp add: ohtani_first_cycle)
  have complete: "\<not> gameComplete (ohtani_game ''In Progress'')
       \<and> gameComplete (ohtani_game ''Final'')"
    by (simp add: ohtani_game_def)
  from first complete ohtani_second_cycle [OF roster marker] ohtani_game_today
  show ?thesis by simp
qed

text \<open>
  C7 against the code. In the example the season split carries ".275", ".340" and
  ".450"; the season-stats record keeps them as they are, and the notification handed
  to the channel shows the slash line "..275 / ..340 / ..450": \<open>post_atbat_update\<close> puts
  a dot in front of fields that already begin with one.
\<close>

theorem slash_line_doubles_the_dot:
  "get_player_season_stats (env_of ''In Progress'' True True) (pl_id ohtani) = ohtani_season
   \<and> avg ohtani_season = ''.275'' \<and> obp ohtani_season = ''.340''
   \<and> slg ohtani_season = ''.450''
   \<and> channel_log (check_games (env_of ''In Progress'' True True) st0)
     = [(atbat_embed ohtani (ohtani_atbat ohtani_season) (ohtani_game ''In Progress''), True)]
   \<and> e_fields (atbat_embed ohtani (ohtani_atbat ohtani_season) (ohtani_game ''In Progress'')) ! 1
     = (''Season Slash Line'', ''..275 / ..340 / ..450'', False)"
proof -
  have season: "get_player_season_stats (env_of ''In Progress'' True True) (pl_id ohtani)
      = ohtani_season"
    using ohtani_season_stats [of "''In Progress''" True True] by (simp add: ohtani_def)
  have fields: "avg ohtani_season = ''.275'' \<and> obp ohtani_season = ''.340''
      \<and> slg ohtani_season = ''.450''"
    by (simp add: ohtani_season_def)
  have log: "channel_log (check_games (env_of ''In Progress'' True True) st0)
     = [(atbat_embed ohtani (ohtani_atbat ohtani_season) (ohtani_game ''In Progress''), True)]"
    by (simp add: ohtani_first_cycle)
  have line: "e_fields (atbat_embed ohtani (ohtani_atbat ohtani_season)
                 (ohtani_game ''In Progress'')) ! 1
     = (''Season Slash Line'', ''..275 / ..340 / ..450'', False)"
    by (simp add: atbat_embed_def Let_def slash_line_def ohtani_atbat_def ohtani_season_def)
  from season fields log line show ?thesis by simp
qed

text \<open>
  C8. The hit flag of a constructed at-bat is true if and only if the event type of the
  play is one of "Single", "Double", "Triple", "Home Run" (a play without event type
  counts as the empty string). Whether an at-bat is notified does not depend on the
  flag: changing it changes neither the decision nor the marker written.
\<close>

theorem hit_flag_iff_hit_event:
  "was_hit (format_atbat e play_data game_data ps)
     = (get_or [] (result_event play_data) \<in> {''Single'', ''Double'', ''Triple'', ''Home Run''})
   \<and> (\<forall>h. (channel_log (snd (snd (handle_atbat e pl g (a\<lparr>was_hit := h\<rparr>) (la, st))))
               \<noteq> channel_log st)
            = (channel_log (snd (snd (handle_atbat e pl g a (la, st)))) \<noteq> channel_log st))
   \<and> (\<forall>h. (channel_log (snd (snd (handle_atbat e pl g (a\<lparr>was_hit := h\<rparr>) (la, st))))
               \<noteq> channel_log st)
            = (ab_id a \<noteq> dict_get la (str_int (pl_id pl))))"
proof -
  have flag: "was_hit (format_atbat e play_data game_data ps)
     = (get_or [] (result_event play_data) \<in> {''Single'', ''Double'', ''Triple'', ''Home Run''})"
    by (simp add: format_atbat_def Let_def hit_events_def)
  have decision: "\<And>b. (channel_log (snd (snd (handle_atbat e pl g b (la, st)))) \<noteq> channel_log st)
            = (ab_id b \<noteq> dict_get la (str_int (pl_id pl)))"
    by (simp add: handle_atbat_cases)
  from flag show ?thesis
    by (simp add: decision)
qed

theorem hit_flag_witness:
  "was_hit (format_atbat (env_of ''Final'' True True) homer (ohtani_game ''Final'') ohtani_season)
   \<and> \<not> was_hit (format_atbat (env_of ''Final'' True True) (homer\<lparr>result_event := Some ''Walk''\<rparr>) (ohtani_game ''Final'')
                  ohtani_season)
   \<and> \<not> was_hit (format_atbat (env_of ''Final'' True True) (homer\<lparr>result_event := Some ''Strikeout''\<rparr>)
                  (ohtani_game ''Final'') ohtani_season)
   \<and> \<not> was_hit (format_atbat (env_of ''Final'' True True) (homer\<lparr>result_event := Some ''single''\<rparr>)
                  (ohtani_game ''Final'') ohtani_season)"
  using hit_flag_iff_hit_event
          [where e = "env_of ''Final'' True True" and play_data = homer
             and game_data = "ohtani_game ''Final''" and ps = ohtani_season,
           THEN conjunct1]
        hit_flag_iff_hit_event
          [where e = "env_of ''Final'' True True"
             and play_data = "homer\<lparr>result_event := Some ''Walk''\<rparr>"
             and game_data = "ohtani_game ''Final''" and ps = ohtani_season,
           THEN conjunct1]
        hit_flag_iff_hit_event
          [where e = "env_of ''Final'' True True"
             and play_data = "homer\<lparr>result_event := Some ''Strikeout''\<rparr>"
             and game_data = "ohtani_game ''Final''" and ps = ohtani_season,
           THEN conjunct1]
        hit_flag_iff_hit_event
          [where e = "env_of ''Final'' True True"
             and play_data = "homer\<lparr>result_event := Some ''single''\<rparr>"
             and game_data = "ohtani_game ''Final''" and ps = ohtani_season,
           THEN conjunct1]
  by (simp add: homer_def get_or_def)

text \<open>
  C9. The runner-in-scoring-position flag of a constructed at-bat is true if and only
  if some runner record of the play has the start base "2B" or "3B"; so it is false
  for a play without runner records, and for one whose movements start elsewhere or
  nowhere.
\<close>

theorem risp_iff_runner_starts_at_second_or_third:
  "risp (format_atbat e play_data game_data ps) =
     (\<exists>r \<in> set (runners play_data).
        movement_start r = Some ''2B'' \<or> movement_start r = Some ''3B'')"
  by (simp add: format_atbat_def Let_def list_ex_iff)

theorem risp_witness:
  "risp (format_atbat (env_of ''Final'' True True) homer (ohtani_game ''Final'') ohtani_season)
   \<and> \<not> risp (format_atbat (env_of ''Final'' True True) (homer\<lparr>runners := []\<rparr>)
               (ohtani_game ''Final'') ohtani_season)
   \<and> \<not> risp (format_atbat (env_of ''Final'' True True)
               (homer\<lparr>runners := [\<lparr>movement_start = Some ''1B''\<rparr>, \<lparr>movement_start = None\<rparr>]\<rparr>)
               (ohtani_game ''Final'') ohtani_season)"
  using risp_iff_runner_starts_at_second_or_third
          [where e = "env_of ''Final'' True True" and play_data = homer
             and game_data = "ohtani_game ''Final''" and ps = ohtani_season]
        risp_iff_runner_starts_at_second_or_third
          [where e = "env_of ''Final'' True True" and play_data = "homer\<lparr>runners := []\<rparr>"
             and game_data = "ohtani_game ''Final''" and ps = ohtani_season]
        risp_iff_runner_starts_at_second_or_third
          [where e = "env_of ''Final'' True True"
             and play_data = "homer\<lparr>runners := [\<lparr>movement_start = Some ''1B''\<rparr>,
                                                \<lparr>movement_start = None\<rparr>]\<rparr>"
             and game_data = "ohtani_game ''Final''" and ps = ohtani_season]
  by (simp add: homer_def)

text \<open>
  C10. Called by a holder of the admin role, \<open>remove_player\<close> deletes every roster entry
  whose name, lower-cased by \<open>str.lower\<close>, contains the lower-cased query as a
  substring, however many there are, and writes the remaining roster; when no entry
  matches it answers that the player was not found and leaves the state, the roster
  file included, as it was. This holds whatever \<open>str.lower\<close> does to a string.
\<close>

theorem remove_player_removes_every_match:
  assumes role: "has_role"
  shows "((\<exists>p \<in> set (get_or [] (roster_file st)).
             sublist (str_lower e player_name) (str_lower e (pl_name p)))
          \<longrightarrow> remove_player e has_role player_name st
                = (emoji_check @ '' Removed player matching '' @ quote @ player_name @ quote
                   @ '' from tracking.'',
                   st\<lparr>roster_file :=
                        Some (filter (\<lambda>p. \<not> sublist (str_lower e player_name)
                                                     (str_lower e (pl_name p)))
                                (get_or [] (roster_file st)))\<rparr>))
       \<and> (\<not> (\<exists>p \<in> set (get_or [] (roster_file st)).
             sublist (str_lower e player_name) (str_lower e (pl_name p)))
          \<longrightarrow> remove_player e has_role player_name st
                = (''Player '' @ quote @ player_name @ quote @ '' not found in roster.'', st))"
  using role by (auto simp add: remove_player_def Let_def length_filter_same str_in_sublist)

text \<open>
  A roster with two players named Will Smith around a third player: the query "SMITH"
  removes both at once, the query "judge" matches nobody and changes nothing. A roster
  with Jose Ramirez, accents included: the query JOSE in capitals with E-acute removes
  him.
\<close>

theorem remove_player_witness:
  "roster_file (snd (remove_player env_search True ''SMITH'' smiths_roster)) = Some [ohtani]
   \<and> snd (remove_player env_search True ''judge'' smiths_roster) = smiths_roster
   \<and> roster_file (snd (remove_player env_search True query_jose ramirez_roster))
       = Some [ohtani]"
proof -
  have m: "\<exists>p \<in> set (get_or [] (roster_file smiths_roster)).
             sublist (str_lower env_search ''SMITH'') (str_lower env_search (pl_name p))"
    by code_simp
  have f: "filter (\<lambda>p. \<not> sublist (str_lower env_search ''SMITH'')
                              (str_lower env_search (pl_name p)))
             (get_or [] (roster_file smiths_roster)) = [ohtani]"
    by code_simp
  have n: "\<not> (\<exists>p \<in> set (get_or [] (roster_file smiths_roster)).
             sublist (str_lower env_search ''judge'') (str_lower env_search (pl_name p)))"
    by code_simp
  have mj: "\<exists>p \<in> set (get_or [] (roster_file ramirez_roster)).
             sublist (str_lower env_search query_jose) (str_lower env_search (pl_name p))"
    by code_simp
  have fj: "filter (\<lambda>p. \<not> sublist (str_lower env_search query_jose)
                               (str_lower env_search (pl_name p)))
             (get_or [] (roster_file ramirez_roster)) = [ohtani]"
    by code_simp
  from remove_player_removes_every_match
         [where has_role = True and e = env_search and st = smiths_roster
            and player_name = "''SMITH''"] m f
  have a: "roster_file (snd (remove_player env_search True ''SMITH'' smiths_roster))
             = Some [ohtani]"
    by simp
  from remove_player_removes_every_match
         [where has_role = True and e = env_search and st = smiths_roster
            and player_name = "''judge''"] n
  have b: "snd (remove_player env_search True ''judge'' smiths_roster) = smiths_roster"
    by simp
  from remove_player_removes_every_match
         [where has_role = True and e = env_search and st = ramirez_roster
            and player_name = query_jose] mj fj
  have c: "roster_file (snd (remove_player env_search True query_jose ramirez_roster))
             = Some [ohtani]"
    by simp
  from a b c show ?thesis by simp
qed

end
